theory Spec2Isabelle
  imports Main
begin

section \<open>The CORS middleware of caddy-cors\<close>

text \<open>
  A shallow embedding of \<^verbatim>\<open>cors.go\<close>: the policy struct \<^verbatim>\<open>Cors\<close>, its life cycle
  (\<^verbatim>\<open>Provision\<close>, \<^verbatim>\<open>Validate\<close>) and the request path (\<^verbatim>\<open>ServeHTTP\<close> with
  \<^verbatim>\<open>setHeader\<close>, \<^verbatim>\<open>isPreflight\<close>, \<^verbatim>\<open>shouldHandleCors\<close>). Calls of the logger
  have no effect on the policy, the request or the response and are left out.
\<close>

subsection \<open>Go strings\<close>

text \<open>
  A Go string is a sequence of bytes, here a \<^typ>\<open>string\<close>. The functions of package
  \<^verbatim>\<open>strings\<close> that the middleware calls:
  \<^verbatim>\<open>HasPrefix(s, p) = len(s) >= len(p) && s[:len(p)] == p\<close>, \<^verbatim>\<open>HasSuffix\<close> alike,
  \<^verbatim>\<open>Contains(s, sub)\<close> (some position of \<open>s\<close> starts a copy of \<open>sub\<close>) and
  \<^verbatim>\<open>Join(elems, sep)\<close>.
\<close>

definition HasPrefix :: "string \<Rightarrow> string \<Rightarrow> bool" where
  "HasPrefix s p = (length p \<le> length s \<and> take (length p) s = p)"

definition HasSuffix :: "string \<Rightarrow> string \<Rightarrow> bool" where
  "HasSuffix s p = (length p \<le> length s \<and> drop (length s - length p) s = p)"

fun Contains :: "string \<Rightarrow> string \<Rightarrow> bool" where
  "Contains [] sub = (sub = [])"
| "Contains (x # s) sub = (HasPrefix (x # s) sub \<or> Contains s sub)"

fun Join :: "string list \<Rightarrow> string \<Rightarrow> string" where
  "Join [] sep = []"
| "Join [e] sep = e"
| "Join (e # f # es) sep = e @ sep @ Join (f # es) sep"

text \<open>
  \<^verbatim>\<open>fmt.Sprintf("%d", n)\<close>: the decimal digits of \<open>n\<close>, most significant first, after
  a minus sign when \<open>n\<close> is negative.
\<close>

definition digit :: "nat \<Rightarrow> char" where
  "digit d = char_of (48 + d)"

function decimal :: "nat \<Rightarrow> string" where
  "decimal n = (if n < 10 then [digit n] else decimal (n div 10) @ [digit (n mod 10)])"
  by pat_completeness auto
termination
  by (relation "measure id") auto

definition Sprintf_d :: "int \<Rightarrow> string" where
  "Sprintf_d n = (if n < 0 then CHR ''-'' # decimal (nat (- n)) else decimal (nat n))"

subsection \<open>Errors, headers, requests and the response writer\<close>

text \<open>A Go \<^verbatim>\<open>error\<close> value carries its message; \<^verbatim>\<open>nil\<close> is \<^const>\<open>None\<close>.\<close>

datatype error = Error string

text \<open>
  \<^verbatim>\<open>http.Header\<close> is \<^verbatim>\<open>map[string][]string\<close>. \<^verbatim>\<open>Get\<close> returns the first value
  stored under the key, or the empty string when there is none; \<^verbatim>\<open>Set\<close> replaces
  whatever is stored under the key by the single value; \<^verbatim>\<open>Del\<close> removes the key.
  The library first brings the key into its canonical form (\<^verbatim>\<open>Access-Control-Allow-Origin\<close>);
  every key the middleware passes is written in that form already, and the keys of a map
  filled by the server are canonical, so keys are compared as they are.
\<close>

type_synonym http_header = "string \<rightharpoonup> string list"

definition Get :: "http_header \<Rightarrow> string \<Rightarrow> string" where
  "Get h key = (case h key of None \<Rightarrow> [] | Some [] \<Rightarrow> [] | Some (v # vs) \<Rightarrow> v)"

definition Set :: "http_header \<Rightarrow> string \<Rightarrow> string \<Rightarrow> http_header" where
  "Set h key v = h(key \<mapsto> [v])"

definition Del :: "http_header \<Rightarrow> string \<Rightarrow> http_header" where
  "Del h key = h(key := None)"

text \<open>The fields of \<^verbatim>\<open>http.Request\<close> that the middleware reads.\<close>

record Request =
  Method :: string
  Header :: http_header

text \<open>
  The response writer \<open>w\<close>: the header map behind \<^verbatim>\<open>w.Header()\<close>, which the middleware
  and the handlers after it mutate in place, and a count of how often the rest of the
  handler chain has been run on this writer.
\<close>

record ResponseWriter =
  wHeader :: http_header
  forwarded :: nat

text \<open>
  The next handler of the chain is not part of this module: any function from the
  response headers and the request to the headers it leaves behind and the error it
  returns. \<open>next_ServeHTTP\<close> is the call \<^verbatim>\<open>next.ServeHTTP(w, r)\<close>.
\<close>

type_synonym Handler = "http_header \<Rightarrow> Request \<Rightarrow> http_header \<times> error option"

definition next_ServeHTTP :: "Handler \<Rightarrow> ResponseWriter \<Rightarrow> Request \<Rightarrow> ResponseWriter \<times> error option" where
  "next_ServeHTTP next w r =
     (case next (wHeader w) r of
        (h, err) \<Rightarrow> (\<lparr>wHeader = h, forwarded = Suc (forwarded w)\<rparr>, err))"

subsection \<open>The policy and its life cycle\<close>

text \<open>
  The struct \<^verbatim>\<open>Cors\<close>. \<^verbatim>\<open>MaxAge\<close> is a Go \<^verbatim>\<open>int\<close>; the module compares it with
  constants, assigns constants to it and prints it, and never computes with it, so no
  operation on it can wrap around and it is an \<^typ>\<open>int\<close> here.
\<close>

record Cors =
  AllowedOrigins :: "string list"
  OverrideExistingCors :: bool
  AllowedMethods :: "string list"
  AllowCredentials :: bool
  MaxAge :: int
  AllowedHeaders :: "string list"
  ExposedHeaders :: "string list"

text \<open>\<^verbatim>\<open>Provision\<close> fills in the defaults and always returns \<^verbatim>\<open>nil\<close>.\<close>

definition Provision :: "Cors \<Rightarrow> Cors \<times> error option" where
  "Provision c =
     (let c = (if length (AllowedOrigins c) = 0 then c\<lparr>AllowedOrigins := [''*'']\<rparr> else c);
          c = (if length (AllowedMethods c) = 0
               then c\<lparr>AllowedMethods := [''GET'', ''POST'', ''PUT'', ''DELETE'', ''PATCH'', ''OPTIONS'']\<rparr>
               else c);
          c = (if MaxAge c = 0 then c\<lparr>MaxAge := 5\<rparr> else c)
      in (c, None))"

text \<open>
  \<^verbatim>\<open>Validate\<close> caps \<^verbatim>\<open>MaxAge\<close> in place and then walks \<^verbatim>\<open>AllowedMethods\<close>, returning
  an error at the first entry that contains a comma. The cap has been written to the
  policy by then, so the policy is returned beside the error.
\<close>

fun methods_loop :: "string list \<Rightarrow> error option" where
  "methods_loop [] = None"
| "methods_loop (method # ms) =
     (if Contains method '','' then
        Some (Error ''Cors: Allowed methods formatted incorrectly, should be a comma separated list of methods'')
      else methods_loop ms)"

definition Validate :: "Cors \<Rightarrow> Cors \<times> error option" where
  "Validate c =
     (let c = (if MaxAge c > 86400 then c\<lparr>MaxAge := 86400\<rparr> else c)
      in (c, methods_loop (AllowedMethods c)))"

subsection \<open>Origin admission\<close>

text \<open>
  \<^verbatim>\<open>regexp.MatchString(pattern, s)\<close> belongs to the Go library, not to this module. It
  returns \<^verbatim>\<open>(matched, err)\<close>: an error when the pattern does not compile, and otherwise
  whether some part of \<open>s\<close> matches. The middleware is modelled for any such function:
  \<^term>\<open>Inl err\<close> is \<^verbatim>\<open>(false, err)\<close> and \<^term>\<open>Inr matched\<close> is \<^verbatim>\<open>(matched, nil)\<close>.
\<close>

type_synonym MatchString = "string \<Rightarrow> string \<Rightarrow> error + bool"

text \<open>
  The loop of \<^verbatim>\<open>shouldHandleCors\<close> over \<^verbatim>\<open>c.AllowedOrigins\<close>, one equation per
  iteration with the three tests in the order of the source. A pattern that fails to
  compile makes the condition \<^verbatim>\<open>err == nil && matched\<close> false; nothing is raised, and
  the iteration goes on with the comparison \<^verbatim>\<open>origin == allowedOrigin\<close>.
\<close>

fun origins_loop :: "MatchString \<Rightarrow> string \<Rightarrow> string list \<Rightarrow> bool" where
  "origins_loop regexp_MatchString origin [] = False"
| "origins_loop regexp_MatchString origin (allowedOrigin # rest) =
     (if allowedOrigin = ''*'' then True
      else if HasPrefix allowedOrigin ''^'' \<and> HasSuffix allowedOrigin ''$'' \<and>
              (case regexp_MatchString allowedOrigin origin of
                 Inl err \<Rightarrow> False
               | Inr matched \<Rightarrow> matched) then True
      else if origin = allowedOrigin then True
      else origins_loop regexp_MatchString origin rest)"

definition shouldHandleCors :: "MatchString \<Rightarrow> Cors \<Rightarrow> Request \<Rightarrow> bool" where
  "shouldHandleCors regexp_MatchString c r =
     (let origin = Get (Header r) ''Origin''
      in origins_loop regexp_MatchString origin (AllowedOrigins c))"

subsection \<open>Preflight requests and header writes\<close>

definition isPreflight :: "Cors \<Rightarrow> Request \<Rightarrow> bool" where
  "isPreflight c r =
     (Method r = ''OPTIONS'' \<and> Get (Header r) ''Access-Control-Request-Method'' \<noteq> '''')"

definition setHeader :: "Cors \<Rightarrow> ResponseWriter \<Rightarrow> string \<Rightarrow> string \<Rightarrow> ResponseWriter" where
  "setHeader c w headerName headerValue =
     (if OverrideExistingCors c
      then w\<lparr>wHeader := Set (wHeader w) headerName headerValue\<rparr>
      else w)"

text \<open>
  Modelled from the spec: \<^verbatim>\<open>ServeHTTP\<close> calls a helper \<^verbatim>\<open>contains(c.AllowedHeaders, "*")\<close>
  whose definition is in none of the source files at hand. The spec (4.3, step 2b) reads
  the call as ``if it contains the wildcard token'', that is, some element of the list
  equals the item.
\<close>

fun contains :: "string list \<Rightarrow> string \<Rightarrow> bool" where
  "contains [] item = False"
| "contains (x # xs) item = (x = item \<or> contains xs item)"

subsection \<open>The request path\<close>

text \<open>
  \<^verbatim>\<open>ServeHTTP\<close>. The loop over \<^verbatim>\<open>w.Header()\<close> before the admission test only logs.
  Every path ends in \<^verbatim>\<open>return next.ServeHTTP(w, r)\<close>.
\<close>

definition ServeHTTP ::
  "MatchString \<Rightarrow> Cors \<Rightarrow> ResponseWriter \<Rightarrow> Request \<Rightarrow> Handler \<Rightarrow> ResponseWriter \<times> error option" where
  "ServeHTTP regexp_MatchString c w r next =
     (let origin = Get (Header r) ''Origin'' in
      if origin = '''' then next_ServeHTTP next w r
      else
        let w =
          (if shouldHandleCors regexp_MatchString c r then
             let w = setHeader c w ''Access-Control-Allow-Origin'' origin;
                 w = setHeader c w ''Vary'' ''Access-Control-Allow-Origin'';
                 w =
                   (if isPreflight c r then
                      let w = setHeader c w ''Access-Control-Allow-Methods''
                                (Join (AllowedMethods c) '', '');
                          w =
                            (if length (AllowedHeaders c) > 0 then
                               (if contains (AllowedHeaders c) ''*'' then
                                  setHeader c w ''Access-Control-Allow-Headers''
                                    (Get (Header r) ''Access-Control-Request-Headers'')
                                else
                                  setHeader c w ''Access-Control-Allow-Headers''
                                    (Join (AllowedHeaders c) '', ''))
                             else w)
                      in (if MaxAge c > 0 then
                            setHeader c w ''Access-Control-Max-Age'' (Sprintf_d (MaxAge c))
                          else w)
                    else
                      (if length (ExposedHeaders c) > 0 then
                         setHeader c w ''Access-Control-Expose-Headers''
                           (Join (ExposedHeaders c) '', '')
                       else w))
             in (if AllowCredentials c then
                   setHeader c w ''Access-Control-Allow-Credentials'' ''true''
                 else w)
           else w)
        in next_ServeHTTP next w r)"

subsection \<open>The response decorator\<close>

text \<open>
  The struct \<^verbatim>\<open>responseWriter\<close> wraps a response writer and points to the policy. Its two
  methods are defined in \<^verbatim>\<open>cors.go\<close>; \<^verbatim>\<open>ServeHTTP\<close> never builds a \<^verbatim>\<open>responseWriter\<close>
  and calls neither. \<^verbatim>\<open>WriteHeader\<close> deletes every key of the header map that starts with
  \<^verbatim>\<open>Access-Control-\<close> when the policy overrides, and does nothing else.
\<close>

definition HandleHeader :: "Cors \<Rightarrow> ResponseWriter \<Rightarrow> string \<Rightarrow> string \<Rightarrow> ResponseWriter" where
  "HandleHeader cors rw header v =
     (let headerExists = (Get (wHeader rw) header \<noteq> '''') in
      if headerExists \<and> \<not> OverrideExistingCors cors then rw
      else
        let rw = (if headerExists then rw\<lparr>wHeader := Del (wHeader rw) header\<rparr> else rw)
        in rw\<lparr>wHeader := Set (wHeader rw) header v\<rparr>)"

definition WriteHeader :: "Cors \<Rightarrow> ResponseWriter \<Rightarrow> int \<Rightarrow> ResponseWriter" where
  "WriteHeader cors rw statusCode =
     (if OverrideExistingCors cors
      then rw\<lparr>wHeader := (\<lambda>header. if HasPrefix header ''Access-Control-'' then None
                                      else wHeader rw header)\<rparr>
      else rw)"

subsection \<open>A fragment of Go regular expressions\<close>

text \<open>
  The theorems below hold for every function in the place of \<^verbatim>\<open>regexp.MatchString\<close>. To
  run the middleware on concrete requests one such function is needed; this one follows
  the Go library on a fragment of its syntax and answers \<open>unsupported\<close> outside of it.
  The fragment: patterns of at most 1000 bytes, all ASCII, built from literal bytes,
  \<^verbatim>\<open>.\<close> (any byte but newline), \<^verbatim>\<open>^\<close> and \<^verbatim>\<open>$\<close> (begin and end of the text),
  a backslash before a byte that is neither a letter nor a digit (that byte, literally),
  groups \<^verbatim>\<open>( )\<close>, alternation \<^verbatim>\<open>|\<close> and one of \<^verbatim>\<open>* + ?\<close> after a literal, a dot or
  a group; texts that are all ASCII. Bracket classes, braces, flags \<^verbatim>\<open>(?\<close>, escapes by
  letters or digits, stacked repetition operators and repeated anchors are outside.

  As in the library, the pattern is read from left to right with a stack of open groups
  and the first error ends the parse: a repetition operator with nothing before it, a
  backslash at the end, a closing parenthesis with no group open, and, at the end of the
  pattern, a group still open. An error carries the library's error code as its message.
\<close>

datatype Regexp =
    NoMatch | EmptyMatch | Literal char | AnyCharNotNL | AnyChar | BeginText | EndText
  | Capture Regexp | Concat Regexp Regexp | Alternate Regexp Regexp
  | Star Regexp | Plus Regexp | Quest Regexp

definition isalnum :: "char \<Rightarrow> bool" where
  "isalnum c =
     (let n = (of_char c :: nat)
      in (48 \<le> n \<and> n \<le> 57) \<or> (65 \<le> n \<and> n \<le> 90) \<or> (97 \<le> n \<and> n \<le> 122))"

definition ascii :: "char \<Rightarrow> bool" where
  "ascii c = ((of_char c :: nat) < 128)"

definition unsupported :: error where
  "unsupported = Error ''outside the modelled fragment''"

text \<open>
  A frame of the parser: the alternatives finished so far and the items of the
  alternative being read, both latest first.
\<close>

type_synonym frame = "Regexp list \<times> Regexp list"

fun concat_rev :: "Regexp list \<Rightarrow> Regexp" where
  "concat_rev [] = EmptyMatch"
| "concat_rev [x] = x"
| "concat_rev (x # y # xs) = Concat (concat_rev (y # xs)) x"

fun alternate_rev :: "Regexp list \<Rightarrow> Regexp" where
  "alternate_rev [] = NoMatch"
| "alternate_rev [x] = x"
| "alternate_rev (x # y # xs) = Alternate (alternate_rev (y # xs)) x"

definition close_frame :: "frame \<Rightarrow> Regexp" where
  "close_frame f = (case f of (alts, items) \<Rightarrow> alternate_rev (concat_rev items # alts))"

definition repeatable :: "Regexp \<Rightarrow> bool" where
  "repeatable r =
     (case r of Literal c \<Rightarrow> True | AnyCharNotNL \<Rightarrow> True | Capture x \<Rightarrow> True | _ \<Rightarrow> False)"

definition repeat :: "char \<Rightarrow> Regexp \<Rightarrow> Regexp" where
  "repeat op r = (if op = CHR ''*'' then Star r else if op = CHR ''+'' then Plus r else Quest r)"

fun parse :: "frame list \<Rightarrow> frame \<Rightarrow> string \<Rightarrow> error + Regexp" where
  "parse stack f [] =
     (if stack = [] then Inr (close_frame f) else Inl (Error ''missing closing )''))"
| "parse stack (alts, items) (c # t) =
     (if c = CHR ''('' then
        (case t of
           [] \<Rightarrow> parse ((alts, items) # stack) ([], []) t
         | d # t' \<Rightarrow>
             if d = CHR ''?'' then Inl unsupported
             else parse ((alts, items) # stack) ([], []) t)
      else if c = CHR '')'' then
        (case stack of
           [] \<Rightarrow> Inl (Error ''unexpected )'')
         | (alts', items') # stack' \<Rightarrow>
             parse stack' (alts', Capture (close_frame (alts, items)) # items') t)
      else if c = CHR ''|'' then parse stack (concat_rev items # alts, []) t
      else if c = CHR ''*'' \<or> c = CHR ''+'' \<or> c = CHR ''?'' then
        (case items of
           [] \<Rightarrow> Inl (Error ''missing argument to repetition operator'')
         | x # items' \<Rightarrow>
             if repeatable x then parse stack (alts, repeat c x # items') t
             else Inl unsupported)
      else if c = CHR 0x5C then
        (case t of
           [] \<Rightarrow> Inl (Error ''trailing backslash at end of expression'')
         | d # t' \<Rightarrow>
             if ascii d \<and> \<not> isalnum d then parse stack (alts, Literal d # items) t'
             else Inl unsupported)
      else if c = CHR ''^'' then parse stack (alts, BeginText # items) t
      else if c = CHR ''$'' then parse stack (alts, EndText # items) t
      else if c = CHR ''.'' then parse stack (alts, AnyCharNotNL # items) t
      else if c = CHR ''['' \<or> c = CHR '']'' \<or> c = CHR ''{'' \<or> c = CHR ''}'' \<or> \<not> ascii c
        then Inl unsupported
      else parse stack (alts, Literal c # items) t)"

text \<open>
  Matching by derivatives. \<open>b\<close> says that the position is the beginning of the text,
  \<open>e\<close> that it is its end; \<open>nullable b e r\<close> is whether \<open>r\<close> matches the empty string
  there, and \<open>deriv b c r\<close> is what is left of \<open>r\<close> once the byte \<open>c\<close> is read from a
  position that is the beginning if \<open>b\<close>.
\<close>

fun nullable :: "bool \<Rightarrow> bool \<Rightarrow> Regexp \<Rightarrow> bool" where
  "nullable b e NoMatch = False"
| "nullable b e EmptyMatch = True"
| "nullable b e (Literal c) = False"
| "nullable b e AnyCharNotNL = False"
| "nullable b e AnyChar = False"
| "nullable b e BeginText = b"
| "nullable b e EndText = e"
| "nullable b e (Capture r) = nullable b e r"
| "nullable b e (Concat r s) = (nullable b e r \<and> nullable b e s)"
| "nullable b e (Alternate r s) = (nullable b e r \<or> nullable b e s)"
| "nullable b e (Star r) = True"
| "nullable b e (Plus r) = nullable b e r"
| "nullable b e (Quest r) = True"

definition alt :: "Regexp \<Rightarrow> Regexp \<Rightarrow> Regexp" where
  "alt r s = (if r = NoMatch then s else if s = NoMatch then r else Alternate r s)"

definition cat :: "Regexp \<Rightarrow> Regexp \<Rightarrow> Regexp" where
  "cat r s = (if r = NoMatch then NoMatch else if r = EmptyMatch then s else Concat r s)"

fun deriv :: "bool \<Rightarrow> char \<Rightarrow> Regexp \<Rightarrow> Regexp" where
  "deriv b c NoMatch = NoMatch"
| "deriv b c EmptyMatch = NoMatch"
| "deriv b c (Literal d) = (if c = d then EmptyMatch else NoMatch)"
| "deriv b c AnyCharNotNL = (if c = CHR 0x0A then NoMatch else EmptyMatch)"
| "deriv b c AnyChar = EmptyMatch"
| "deriv b c BeginText = NoMatch"
| "deriv b c EndText = NoMatch"
| "deriv b c (Capture r) = deriv b c r"
| "deriv b c (Concat r s) =
     alt (cat (deriv b c r) s) (if nullable b False r then deriv b c s else NoMatch)"
| "deriv b c (Alternate r s) = alt (deriv b c r) (deriv b c s)"
| "deriv b c (Star r) = cat (deriv b c r) (Star r)"
| "deriv b c (Plus r) = cat (deriv b c r) (Star r)"
| "deriv b c (Quest r) = deriv b c r"

fun accepts :: "bool \<Rightarrow> Regexp \<Rightarrow> string \<Rightarrow> bool" where
  "accepts b r [] = nullable b True r"
| "accepts b r (c # s) = accepts False (deriv b c r) s"

text \<open>
  \<^verbatim>\<open>MatchString\<close> reports whether the text contains a match, so any bytes may come
  before and after it.
\<close>

definition fragment_MatchString :: MatchString where
  "fragment_MatchString pattern s =
     (if length pattern > 1000 \<or> \<not> list_all ascii s then Inl unsupported
      else case parse [] ([], []) pattern of
             Inl err \<Rightarrow> Inl err
           | Inr re \<Rightarrow> Inr (accepts True (Concat (Star AnyChar) (Concat re (Star AnyChar))) s))"

subsection \<open>Example policies, requests and handlers\<close>

text \<open>A next handler that leaves the response headers as they are and returns \<^verbatim>\<open>nil\<close>.\<close>

definition pass_through :: Handler where
  "pass_through h r = (h, None)"

text \<open>The policy of the first end-to-end scenario: every origin, writes enabled.\<close>

definition open_policy :: Cors where
  "open_policy =
     \<lparr>AllowedOrigins = [''*''], OverrideExistingCors = True,
      AllowedMethods = [''GET'', ''POST''], AllowCredentials = False, MaxAge = 5,
      AllowedHeaders = [], ExposedHeaders = []\<rparr>"

definition get_request :: "string \<Rightarrow> Request" where
  "get_request origin = \<lparr>Method = ''GET'', Header = [''Origin'' \<mapsto> [origin]]\<rparr>"

text \<open>The preflight request of the third scenario.\<close>

definition preflight_request :: "string \<Rightarrow> Request" where
  "preflight_request origin =
     \<lparr>Method = ''OPTIONS'',
      Header = [''Origin'' \<mapsto> [origin],
                ''Access-Control-Request-Method'' \<mapsto> [''POST''],
                ''Access-Control-Request-Headers'' \<mapsto> [''X-Custom'']]\<rparr>"

text \<open>A response before any handler has written to it.\<close>

definition blank_writer :: ResponseWriter where
  "blank_writer = \<lparr>wHeader = Map.empty, forwarded = 0\<rparr>"

text \<open>A response on which an earlier handler has set three headers already.\<close>

definition used_writer :: ResponseWriter where
  "used_writer =
     \<lparr>wHeader = [''Vary'' \<mapsto> [''Accept-Encoding''],
                 ''Access-Control-Allow-Origin'' \<mapsto> [''https://old.example''],
                 ''Access-Control-Allow-Private-Network'' \<mapsto> [''true'']],
      forwarded = 0\<rparr>"

text \<open>
  The pattern of the second scenario, \<^verbatim>\<open>^https://.*\.example\.com$\<close>, and a pattern
  between \<^verbatim>\<open>^\<close> and \<^verbatim>\<open>$\<close> whose group is never closed.
\<close>

definition subdomain_pattern :: string where
  "subdomain_pattern = ''^https://.*'' @ [CHR 0x5C] @ ''.example'' @ [CHR 0x5C] @ ''.com$''"

definition malformed_pattern :: string where
  "malformed_pattern = ''^(https://a.example$''"

section \<open>Properties\<close>

subsection \<open>Library functions\<close>

lemma HasPrefix_single: "HasPrefix s [c] = (case s of [] \<Rightarrow> False | x # t \<Rightarrow> x = c)"
  by (cases s) (auto simp: HasPrefix_def)

lemma Contains_single: "Contains s [c] = (c \<in> set s)"
  by (induction s) (auto simp: HasPrefix_single)

lemma contains_set: "contains xs item = (item \<in> set xs)"
  by (induction xs) auto

lemma Get_nonempty: "(Get h k \<noteq> []) = (\<exists>v vs. h k = Some (v # vs) \<and> v \<noteq> [])"
  by (auto simp: Get_def split: option.splits list.splits)

lemma Get_absent: "h k = None \<Longrightarrow> Get h k = []"
  by (simp add: Get_def)

subsection \<open>Validation\<close>

lemma methods_loop_None: "(methods_loop ms = None) = (\<forall>m\<in>set ms. CHR '','' \<notin> set m)"
  by (induction ms) (auto simp: Contains_single)

text \<open>
  Claim C8. \<^verbatim>\<open>Validate\<close> returns an error if and only if some entry of
  \<^verbatim>\<open>AllowedMethods\<close> contains a comma.
\<close>

theorem Validate_fails_iff_comma:
  "(snd (Validate c) \<noteq> None) = (\<exists>m\<in>set (AllowedMethods c). CHR '','' \<in> set m)"
  using methods_loop_None [of "AllowedMethods c"] by (auto simp: Validate_def Let_def)

theorem Validate_fails_iff_comma_witness:
  "snd (Validate (open_policy\<lparr>AllowedMethods := [''GET,POST'']\<rparr>)) \<noteq> None \<and>
   snd (Validate (open_policy\<lparr>AllowedMethods := [''GET'', ''POST'']\<rparr>)) = None"
  using Validate_fails_iff_comma [of "open_policy\<lparr>AllowedMethods := [''GET,POST'']\<rparr>"]
        Validate_fails_iff_comma [of "open_policy\<lparr>AllowedMethods := [''GET'', ''POST'']\<rparr>"]
  by simp

text \<open>
  Claim C2, as the code has it. After \<^verbatim>\<open>Validate\<close>, alone or after \<^verbatim>\<open>Provision\<close>,
  \<^verbatim>\<open>MaxAge\<close> is at most 86400: a larger value has become 86400 and any other value is
  what it was, so the result is not negative when the configured value was not. Whether
  \<^verbatim>\<open>Validate\<close> returns an error does not depend on \<^verbatim>\<open>MaxAge\<close>.
\<close>

theorem MaxAge_after_Validate:
  "MaxAge (fst (Validate c)) = (if 86400 < MaxAge c then 86400 else MaxAge c) \<and>
   MaxAge (fst (Validate c)) \<le> 86400 \<and>
   MaxAge (fst (Validate (fst (Provision c)))) \<le> 86400 \<and>
   (0 \<le> MaxAge c \<longrightarrow>
      0 \<le> MaxAge (fst (Validate c)) \<and> 0 \<le> MaxAge (fst (Validate (fst (Provision c))))) \<and>
   snd (Validate (c\<lparr>MaxAge := n\<rparr>)) = snd (Validate c)"
  by (simp add: Validate_def Provision_def Let_def)

theorem MaxAge_after_Validate_witness:
  "MaxAge (fst (Validate (fst (Provision (open_policy\<lparr>MaxAge := 100000\<rparr>))))) \<le> 86400 \<and>
   MaxAge (fst (Validate (open_policy\<lparr>MaxAge := 100000\<rparr>))) = 86400 \<and>
   snd (Validate (open_policy\<lparr>MaxAge := 100000\<rparr>)) = None \<and>
   0 \<le> MaxAge (fst (Validate (open_policy\<lparr>MaxAge := 7\<rparr>)))"
proof -
  have "snd (Validate open_policy) = None"
    by (simp add: Validate_def open_policy_def HasPrefix_def)
  then show ?thesis
    using MaxAge_after_Validate [of "open_policy\<lparr>MaxAge := 100000\<rparr>" 5]
          MaxAge_after_Validate [of "open_policy\<lparr>MaxAge := 7\<rparr>" 5]
          MaxAge_after_Validate [of open_policy 100000]
    by simp
qed

text \<open>
  Claim C2 as stated fails below zero: a configured \<^verbatim>\<open>MaxAge\<close> of \<open>-1\<close> passes
  \<^verbatim>\<open>Provision\<close> and \<^verbatim>\<open>Validate\<close> unchanged.
\<close>

theorem MaxAge_negative_counterexample:
  "\<not> 0 \<le> MaxAge (fst (Validate (fst (Provision (open_policy\<lparr>MaxAge := - 1\<rparr>))))) \<and>
   snd (Validate (fst (Provision (open_policy\<lparr>MaxAge := - 1\<rparr>)))) = None"
  by (simp add: Validate_def Provision_def open_policy_def Let_def HasPrefix_def)

subsection \<open>Preflight classification\<close>

text \<open>
  Claim C6. \<^verbatim>\<open>isPreflight\<close> holds if and only if the method is \<^verbatim>\<open>OPTIONS\<close> and the
  request has an \<^verbatim>\<open>Access-Control-Request-Method\<close> header whose (first) value is not
  empty; in particular it fails for an \<^verbatim>\<open>OPTIONS\<close> request without that header.
\<close>

theorem isPreflight_iff:
  "isPreflight c r =
     (Method r = ''OPTIONS'' \<and>
      (\<exists>v vs. Header r ''Access-Control-Request-Method'' = Some (v # vs) \<and> v \<noteq> '''')) \<and>
   (Header r ''Access-Control-Request-Method'' = None \<longrightarrow> \<not> isPreflight c r)"
  by (auto simp: isPreflight_def Get_nonempty)

theorem isPreflight_iff_witness:
  "isPreflight open_policy (preflight_request ''http://example.com'') \<and>
   Header \<lparr>Method = ''OPTIONS'', Header = [''Origin'' \<mapsto> [''http://example.com'']]\<rparr>
     ''Access-Control-Request-Method'' = None \<and>
   \<not> isPreflight open_policy
       \<lparr>Method = ''OPTIONS'', Header = [''Origin'' \<mapsto> [''http://example.com'']]\<rparr>"
  using isPreflight_iff [of open_policy "preflight_request ''http://example.com''"]
        isPreflight_iff [of open_policy
          "\<lparr>Method = ''OPTIONS'', Header = [''Origin'' \<mapsto> [''http://example.com'']]\<rparr>"]
  by (simp add: preflight_request_def)

subsection \<open>Origin admission\<close>

lemma origins_loop_append:
  "origins_loop re origin (xs @ ys) = (origins_loop re origin xs \<or> origins_loop re origin ys)"
  by (induction xs) auto

lemma origins_loop_wildcard: "''*'' \<in> set xs \<Longrightarrow> origins_loop re origin xs"
  by (induction xs) auto

lemma origins_loop_find:
  "origins_loop re origin xs =
     (find (\<lambda>a. a = ''*'' \<or>
                 (HasPrefix a ''^'' \<and> HasSuffix a ''$'' \<and> re a origin = Inr True) \<or>
                 origin = a) xs \<noteq> None)"
  by (induction xs) (auto split: sum.splits)

lemma malformed_pattern_error:
  "fragment_MatchString malformed_pattern s =
     (if list_all ascii s then Inl (Error ''missing closing )'') else Inl unsupported)"
proof -
  have "parse [] ([], []) malformed_pattern = Inl (Error ''missing closing )'')"
    by code_simp
  moreover have "\<not> 1000 < length malformed_pattern"
    by code_simp
  ultimately show ?thesis
    by (simp add: fragment_MatchString_def)
qed

lemma malformed_pattern_delimited:
  "HasPrefix malformed_pattern ''^''" "HasSuffix malformed_pattern ''$''"
  by (simp_all add: HasPrefix_def HasSuffix_def malformed_pattern_def)

lemma Origin_get_request: "Get (Header (get_request origin)) ''Origin'' = origin"
  by (simp add: get_request_def Get_def)

text \<open>
  Claim C4, as the code has it. An entry between \<^verbatim>\<open>^\<close> and \<^verbatim>\<open>$\<close> that does not compile
  raises nothing: its regular-expression test counts as failed, the entry is then
  compared with the origin as a plain string, and unless the two are equal the loop goes
  on with the next entry. So the list admits the origin if and only if the entries before
  the malformed one do, or the origin is the malformed entry's own text, or the entries
  after it do.
\<close>

theorem malformed_entry_skipped_unless_equal:
  assumes "AllowedOrigins c = before @ allowedOrigin # rest"
    and "HasPrefix allowedOrigin ''^''" and "HasSuffix allowedOrigin ''$''"
    and "re allowedOrigin (Get (Header r) ''Origin'') = Inl err"
  shows "shouldHandleCors re c r =
           (shouldHandleCors re (c\<lparr>AllowedOrigins := before\<rparr>) r \<or>
            Get (Header r) ''Origin'' = allowedOrigin \<or>
            shouldHandleCors re (c\<lparr>AllowedOrigins := rest\<rparr>) r)"
proof -
  have "allowedOrigin \<noteq> ''*''"
    using assms(2) by (auto simp: HasPrefix_def)
  then show ?thesis
    using assms by (auto simp: shouldHandleCors_def Let_def origins_loop_append)
qed

theorem malformed_entry_skipped_unless_equal_witness:
  "AllowedOrigins (open_policy\<lparr>AllowedOrigins := [malformed_pattern, ''https://b.example'']\<rparr>) =
     [] @ malformed_pattern # [''https://b.example''] \<and>
   HasPrefix malformed_pattern ''^'' \<and> HasSuffix malformed_pattern ''$'' \<and>
   fragment_MatchString malformed_pattern
     (Get (Header (get_request ''https://b.example'')) ''Origin'') =
       Inl (Error ''missing closing )'') \<and>
   shouldHandleCors fragment_MatchString
     (open_policy\<lparr>AllowedOrigins := [malformed_pattern, ''https://b.example'']\<rparr>)
     (get_request ''https://b.example'')"
proof -
  have e: "fragment_MatchString malformed_pattern
             (Get (Header (get_request ''https://b.example'')) ''Origin'') =
           Inl (Error ''missing closing )'')"
    by (simp add: malformed_pattern_error Origin_get_request ascii_def)
  have "shouldHandleCors fragment_MatchString
          (open_policy\<lparr>AllowedOrigins := [''https://b.example'']\<rparr>)
          (get_request ''https://b.example'')"
    by (simp add: shouldHandleCors_def Origin_get_request)
  then show ?thesis
    using e malformed_pattern_delimited
      malformed_entry_skipped_unless_equal
        [where c = "open_policy\<lparr>AllowedOrigins := [malformed_pattern, ''https://b.example'']\<rparr>"
           and before = "[]" and allowedOrigin = malformed_pattern
           and rest = "[''https://b.example'']" and re = fragment_MatchString
           and r = "get_request ''https://b.example''" and err = "Error ''missing closing )''"]
    by simp
qed

text \<open>
  Claim C4 as stated fails when the origin is the text of the malformed entry: the entry
  is the only one of the list, its pattern does not compile, and the request is admitted
  all the same, where an entry that counts as no match would leave it to the empty rest
  of the list, which admits nothing.
\<close>

theorem malformed_entry_admits_own_text_counterexample:
  "HasPrefix malformed_pattern ''^'' \<and> HasSuffix malformed_pattern ''$'' \<and>
   fragment_MatchString malformed_pattern (Get (Header (get_request malformed_pattern)) ''Origin'') =
     Inl (Error ''missing closing )'') \<and>
   shouldHandleCors fragment_MatchString (open_policy\<lparr>AllowedOrigins := [malformed_pattern]\<rparr>)
     (get_request malformed_pattern) \<and>
   \<not> shouldHandleCors fragment_MatchString (open_policy\<lparr>AllowedOrigins := []\<rparr>)
     (get_request malformed_pattern)"
proof -
  have "list_all ascii malformed_pattern"
    by code_simp
  then show ?thesis
    by (simp add: malformed_pattern_error malformed_pattern_delimited Origin_get_request
        shouldHandleCors_def)
qed

text \<open>
  Claim C5. A wildcard entry at any position of \<^verbatim>\<open>AllowedOrigins\<close> admits every
  origin; and in general the request is admitted if and only if the list has a first
  entry that is the wildcard, or lies between \<^verbatim>\<open>^\<close> and \<^verbatim>\<open>$\<close> and matches the origin as
  a regular expression, or equals the origin.
\<close>

theorem admission_by_first_matching_entry:
  "(''*'' \<in> set (AllowedOrigins c) \<longrightarrow> shouldHandleCors re c r) \<and>
   shouldHandleCors re c r =
     (find (\<lambda>a. a = ''*'' \<or>
                 (HasPrefix a ''^'' \<and> HasSuffix a ''$'' \<and>
                  re a (Get (Header r) ''Origin'') = Inr True) \<or>
                 Get (Header r) ''Origin'' = a) (AllowedOrigins c) \<noteq> None)"
  using origins_loop_find [of re "Get (Header r) ''Origin''" "AllowedOrigins c"]
  by (simp add: shouldHandleCors_def Let_def origins_loop_wildcard)

theorem admission_by_first_matching_entry_witness:
  "shouldHandleCors fragment_MatchString
     (open_policy\<lparr>AllowedOrigins := [''https://a.example'', ''*'']\<rparr>)
     (get_request ''https://other.example'') \<and>
   shouldHandleCors fragment_MatchString
     (open_policy\<lparr>AllowedOrigins := [''https://a.example'', subdomain_pattern]\<rparr>)
     (get_request ''https://api.example.com'') \<and>
   \<not> shouldHandleCors fragment_MatchString
     (open_policy\<lparr>AllowedOrigins := [''https://a.example'', subdomain_pattern]\<rparr>)
     (get_request ''https://example.org'')"
proof -
  have m: "fragment_MatchString subdomain_pattern ''https://api.example.com'' = Inr True"
    by code_simp
  have n: "fragment_MatchString subdomain_pattern ''https://example.org'' = Inr False"
    by code_simp
  have p: "HasPrefix subdomain_pattern ''^''" "HasSuffix subdomain_pattern ''$''"
    "subdomain_pattern \<noteq> ''*''" "subdomain_pattern \<noteq> ''https://example.org''"
    by (simp_all add: HasPrefix_def HasSuffix_def subdomain_pattern_def)
  have q: "\<not> HasPrefix ''https://a.example'' ''^''"
    by (simp add: HasPrefix_def)
  show ?thesis
    using m n p q
      admission_by_first_matching_entry
        [of "open_policy\<lparr>AllowedOrigins := [''https://a.example'', ''*'']\<rparr>"
            fragment_MatchString "get_request ''https://other.example''"]
      admission_by_first_matching_entry
        [of "open_policy\<lparr>AllowedOrigins := [''https://a.example'', subdomain_pattern]\<rparr>"
            fragment_MatchString "get_request ''https://api.example.com''"]
      admission_by_first_matching_entry
        [of "open_policy\<lparr>AllowedOrigins := [''https://a.example'', subdomain_pattern]\<rparr>"
            fragment_MatchString "get_request ''https://example.org''"]
    by (simp add: Origin_get_request)
qed

subsection \<open>The request path\<close>

lemma setHeader_off: "\<not> OverrideExistingCors c \<Longrightarrow> setHeader c w n v = w"
  by (simp add: setHeader_def)

lemma setHeader_on:
  "OverrideExistingCors c \<Longrightarrow> setHeader c w n v = w\<lparr>wHeader := (wHeader w)(n \<mapsto> [v])\<rparr>"
  by (simp add: setHeader_def Set_def)

lemma next_ServeHTTP_forwarded:
  "forwarded (fst (next_ServeHTTP next w r)) = Suc (forwarded w)"
  by (simp add: next_ServeHTTP_def split: prod.splits)

lemma next_ServeHTTP_pass_through:
  "next_ServeHTTP pass_through w r = (w\<lparr>forwarded := Suc (forwarded w)\<rparr>, None)"
  by (simp add: next_ServeHTTP_def pass_through_def)

text \<open>
  Whatever the next handler is, it is called once, at the end, on the writer as the
  middleware has left it; with the handler that changes nothing, that writer's headers
  are what \<^const>\<open>ServeHTTP\<close> returns.
\<close>

lemma ServeHTTP_hands_on:
  "ServeHTTP re c w r next =
     next_ServeHTTP next (w\<lparr>wHeader := wHeader (fst (ServeHTTP re c w r pass_through))\<rparr>) r"
  by (cases "OverrideExistingCors c")
     (simp_all add: ServeHTTP_def Let_def setHeader_on setHeader_off next_ServeHTTP_pass_through)

text \<open>
  Claim C7. A request without an \<^verbatim>\<open>Origin\<close> header, or with an empty one, goes to the
  next handler with the response writer untouched, and the next handler is run exactly
  once: what \<^verbatim>\<open>ServeHTTP\<close> does is what the call of the next handler alone does.
\<close>

theorem no_origin_passes_through:
  assumes "Header r ''Origin'' = None \<or> Get (Header r) ''Origin'' = ''''"
  shows "ServeHTTP re c w r next = next_ServeHTTP next w r \<and>
         forwarded (fst (ServeHTTP re c w r next)) = Suc (forwarded w)"
proof -
  have "Get (Header r) ''Origin'' = ''''"
    using assms by (auto simp: Get_absent)
  then have "ServeHTTP re c w r next = next_ServeHTTP next w r"
    by (simp add: ServeHTTP_def)
  then show ?thesis
    by (simp add: next_ServeHTTP_forwarded)
qed

theorem no_origin_passes_through_witness:
  "Header \<lparr>Method = ''GET'', Header = Map.empty\<rparr> ''Origin'' = None \<and>
   ServeHTTP fragment_MatchString open_policy used_writer
     \<lparr>Method = ''GET'', Header = Map.empty\<rparr> pass_through =
     (used_writer\<lparr>forwarded := 1\<rparr>, None)"
  using no_origin_passes_through
    [of "\<lparr>Method = ''GET'', Header = Map.empty\<rparr>" fragment_MatchString open_policy
        used_writer pass_through]
  by (simp add: next_ServeHTTP_pass_through used_writer_def)

text \<open>
  Claim C1. When \<^verbatim>\<open>OverrideExistingCors\<close> is false, an admitted cross-origin request
  goes to the next handler with the response writer untouched, whatever headers the
  response holds already, and the next handler is run (once).
\<close>

theorem no_override_writes_nothing:
  assumes "Get (Header r) ''Origin'' \<noteq> ''''"
    and "shouldHandleCors re c r"
    and "\<not> OverrideExistingCors c"
  shows "ServeHTTP re c w r next = next_ServeHTTP next w r \<and>
         forwarded (fst (ServeHTTP re c w r next)) = Suc (forwarded w)"
proof -
  have "ServeHTTP re c w r next = next_ServeHTTP next w r"
    using assms by (simp add: ServeHTTP_def Let_def setHeader_off)
  then show ?thesis
    by (simp add: next_ServeHTTP_forwarded)
qed

theorem no_override_writes_nothing_witness:
  "Get (Header (get_request ''http://example.com'')) ''Origin'' \<noteq> '''' \<and>
   shouldHandleCors fragment_MatchString (open_policy\<lparr>OverrideExistingCors := False\<rparr>)
     (get_request ''http://example.com'') \<and>
   \<not> OverrideExistingCors (open_policy\<lparr>OverrideExistingCors := False\<rparr>) \<and>
   ServeHTTP fragment_MatchString (open_policy\<lparr>OverrideExistingCors := False\<rparr>) used_writer
     (get_request ''http://example.com'') pass_through =
     (used_writer\<lparr>forwarded := 1\<rparr>, None)"
proof -
  have a: "shouldHandleCors fragment_MatchString (open_policy\<lparr>OverrideExistingCors := False\<rparr>)
             (get_request ''http://example.com'')"
    by (simp add: shouldHandleCors_def open_policy_def)
  show ?thesis
    using a no_override_writes_nothing
      [of "get_request ''http://example.com''" fragment_MatchString
          "open_policy\<lparr>OverrideExistingCors := False\<rparr>" used_writer pass_through]
    by (simp add: Origin_get_request next_ServeHTTP_pass_through used_writer_def)
qed

text \<open>
  Claim C3, as the code has it. With \<^verbatim>\<open>OverrideExistingCors\<close> true, an admitted
  cross-origin request reaches the next handler, whichever handler that is, with
  \<^verbatim>\<open>Access-Control-Allow-Origin\<close> set to the request's own \<^verbatim>\<open>Origin\<close> value, whichever
  entry admitted it, and with \<^verbatim>\<open>Vary\<close> set to the single value
  \<^verbatim>\<open>Access-Control-Allow-Origin\<close>, in the place of any values \<^verbatim>\<open>Vary\<close> had.
\<close>

theorem allow_origin_and_vary_set:
  assumes "Get (Header r) ''Origin'' \<noteq> ''''"
    and "shouldHandleCors re c r"
    and "OverrideExistingCors c"
  shows "\<exists>h. (\<forall>next. ServeHTTP re c w r next = next_ServeHTTP next (w\<lparr>wHeader := h\<rparr>) r) \<and>
             h ''Access-Control-Allow-Origin'' = Some [Get (Header r) ''Origin''] \<and>
             h ''Vary'' = Some [''Access-Control-Allow-Origin'']"
proof (intro exI conjI allI)
  fix nxt
  show "ServeHTTP re c w r nxt =
          next_ServeHTTP nxt (w\<lparr>wHeader := wHeader (fst (ServeHTTP re c w r pass_through))\<rparr>) r"
    by (rule ServeHTTP_hands_on)
next
  show "wHeader (fst (ServeHTTP re c w r pass_through)) ''Access-Control-Allow-Origin'' =
          Some [Get (Header r) ''Origin'']"
    using assms by (simp add: ServeHTTP_def Let_def setHeader_on next_ServeHTTP_pass_through)
next
  show "wHeader (fst (ServeHTTP re c w r pass_through)) ''Vary'' =
          Some [''Access-Control-Allow-Origin'']"
    using assms by (simp add: ServeHTTP_def Let_def setHeader_on next_ServeHTTP_pass_through)
qed

lemma open_policy_admits: "shouldHandleCors re (open_policy\<lparr>AllowedHeaders := hs\<rparr>) r"
  by (simp add: shouldHandleCors_def open_policy_def)

lemma open_policy_overrides: "OverrideExistingCors (open_policy\<lparr>AllowedHeaders := hs\<rparr>)"
  by (simp add: open_policy_def)

lemma open_policy_AllowedHeaders: "open_policy\<lparr>AllowedHeaders := []\<rparr> = open_policy"
  by (simp add: open_policy_def)

theorem allow_origin_and_vary_set_witness:
  "Get (Header (get_request ''http://example.com'')) ''Origin'' \<noteq> '''' \<and>
   shouldHandleCors fragment_MatchString open_policy (get_request ''http://example.com'') \<and>
   OverrideExistingCors open_policy \<and>
   wHeader (fst (ServeHTTP fragment_MatchString open_policy blank_writer
                   (get_request ''http://example.com'') pass_through))
     ''Access-Control-Allow-Origin'' = Some [''http://example.com''] \<and>
   wHeader (fst (ServeHTTP fragment_MatchString open_policy blank_writer
                   (get_request ''http://example.com'') pass_through))
     ''Vary'' = Some [''Access-Control-Allow-Origin'']"
proof -
  let ?r = "get_request ''http://example.com''"
  have o: "OverrideExistingCors open_policy"
    using open_policy_overrides [of "[]"] by (simp add: open_policy_AllowedHeaders)
  have a: "shouldHandleCors fragment_MatchString open_policy ?r"
    using open_policy_admits [of fragment_MatchString "[]" ?r]
    by (simp add: open_policy_AllowedHeaders)
  have g: "Get (Header ?r) ''Origin'' \<noteq> ''''"
    by (simp add: Origin_get_request)
  obtain h where
    "\<forall>next. ServeHTTP fragment_MatchString open_policy blank_writer ?r next =
       next_ServeHTTP next (blank_writer\<lparr>wHeader := h\<rparr>) ?r"
    "h ''Access-Control-Allow-Origin'' = Some [Get (Header ?r) ''Origin'']"
    "h ''Vary'' = Some [''Access-Control-Allow-Origin'']"
    using allow_origin_and_vary_set [OF g a o] by blast
  then show ?thesis
    using o a by (simp add: next_ServeHTTP_pass_through Origin_get_request)
qed

text \<open>
  Claim C3 as stated fails for a response that has a \<^verbatim>\<open>Vary\<close> header already: the
  value \<^verbatim>\<open>Accept-Encoding\<close> is not kept beside the new one, it is replaced.
\<close>

theorem vary_replaced_counterexample:
  "Get (Header (get_request ''http://example.com'')) ''Origin'' \<noteq> '''' \<and>
   shouldHandleCors fragment_MatchString open_policy (get_request ''http://example.com'') \<and>
   OverrideExistingCors open_policy \<and>
   wHeader used_writer ''Vary'' = Some [''Accept-Encoding''] \<and>
   wHeader (fst (ServeHTTP fragment_MatchString open_policy used_writer
                   (get_request ''http://example.com'') pass_through))
     ''Vary'' = Some [''Access-Control-Allow-Origin''] \<and>
   ''Accept-Encoding'' \<notin> set [''Access-Control-Allow-Origin'']"
proof -
  let ?r = "get_request ''http://example.com''"
  have o: "OverrideExistingCors open_policy"
    using open_policy_overrides [of "[]"] by (simp add: open_policy_AllowedHeaders)
  have a: "shouldHandleCors fragment_MatchString open_policy ?r"
    using open_policy_admits [of fragment_MatchString "[]" ?r]
    by (simp add: open_policy_AllowedHeaders)
  have "wHeader used_writer ''Vary'' = Some [''Accept-Encoding'']"
    by (simp add: used_writer_def)
  moreover have
    "wHeader (fst (ServeHTTP fragment_MatchString open_policy used_writer ?r pass_through))
       ''Vary'' = Some [''Access-Control-Allow-Origin'']"
    using o a
    by (simp add: ServeHTTP_def Let_def setHeader_on next_ServeHTTP_pass_through
        Origin_get_request)
  ultimately show ?thesis
    using o a by (simp add: Origin_get_request)
qed

text \<open>
  Claim C9. With \<^verbatim>\<open>OverrideExistingCors\<close> true, an admitted preflight request reaches
  the next handler with \<^verbatim>\<open>Access-Control-Allow-Headers\<close> as the response had it when
  \<^verbatim>\<open>AllowedHeaders\<close> is empty, set to the request's \<^verbatim>\<open>Access-Control-Request-Headers\<close>
  value when \<^verbatim>\<open>AllowedHeaders\<close> contains \<^verbatim>\<open>*\<close>, and set to the entries of
  \<^verbatim>\<open>AllowedHeaders\<close> joined by a comma and a space otherwise.
\<close>

theorem allow_headers_on_preflight:
  assumes "Get (Header r) ''Origin'' \<noteq> ''''"
    and "shouldHandleCors re c r"
    and "isPreflight c r"
    and "OverrideExistingCors c"
  shows "\<exists>h. (\<forall>next. ServeHTTP re c w r next = next_ServeHTTP next (w\<lparr>wHeader := h\<rparr>) r) \<and>
             h ''Access-Control-Allow-Headers'' =
               (if AllowedHeaders c = [] then wHeader w ''Access-Control-Allow-Headers''
                else if ''*'' \<in> set (AllowedHeaders c)
                  then Some [Get (Header r) ''Access-Control-Request-Headers'']
                else Some [Join (AllowedHeaders c) '', ''])"
proof (intro exI conjI allI)
  fix nxt
  show "ServeHTTP re c w r nxt =
          next_ServeHTTP nxt (w\<lparr>wHeader := wHeader (fst (ServeHTTP re c w r pass_through))\<rparr>) r"
    by (rule ServeHTTP_hands_on)
next
  show "wHeader (fst (ServeHTTP re c w r pass_through)) ''Access-Control-Allow-Headers'' =
          (if AllowedHeaders c = [] then wHeader w ''Access-Control-Allow-Headers''
           else if ''*'' \<in> set (AllowedHeaders c)
             then Some [Get (Header r) ''Access-Control-Request-Headers'']
           else Some [Join (AllowedHeaders c) '', ''])"
    using assms
    by (simp add: ServeHTTP_def Let_def setHeader_on next_ServeHTTP_pass_through contains_set)
qed

lemma preflight_request_reads:
  "Get (Header (preflight_request origin)) ''Origin'' = origin"
  "Get (Header (preflight_request origin)) ''Access-Control-Request-Headers'' = ''X-Custom''"
  "isPreflight c (preflight_request origin)"
  by (simp_all add: preflight_request_def Get_def isPreflight_def)

theorem allow_headers_on_preflight_witness:
  "Get (Header (preflight_request ''http://example.com'')) ''Origin'' \<noteq> '''' \<and>
   shouldHandleCors fragment_MatchString (open_policy\<lparr>AllowedHeaders := [''*'']\<rparr>)
     (preflight_request ''http://example.com'') \<and>
   isPreflight (open_policy\<lparr>AllowedHeaders := [''*'']\<rparr>)
     (preflight_request ''http://example.com'') \<and>
   OverrideExistingCors (open_policy\<lparr>AllowedHeaders := [''*'']\<rparr>) \<and>
   wHeader (fst (ServeHTTP fragment_MatchString (open_policy\<lparr>AllowedHeaders := [''*'']\<rparr>)
                   blank_writer (preflight_request ''http://example.com'') pass_through))
     ''Access-Control-Allow-Headers'' = Some [''X-Custom''] \<and>
   wHeader (fst (ServeHTTP fragment_MatchString
                   (open_policy\<lparr>AllowedHeaders := [''X-Requested-With'', ''Content-Type'']\<rparr>)
                   blank_writer (preflight_request ''http://example.com'') pass_through))
     ''Access-Control-Allow-Headers'' = Some [''X-Requested-With, Content-Type''] \<and>
   wHeader (fst (ServeHTTP fragment_MatchString (open_policy\<lparr>AllowedHeaders := []\<rparr>)
                   blank_writer (preflight_request ''http://example.com'') pass_through))
     ''Access-Control-Allow-Headers'' = None"
proof -
  let ?r = "preflight_request ''http://example.com''"
  note a = open_policy_admits [of fragment_MatchString _ ?r]
  note o = open_policy_overrides
  note p = preflight_request_reads(3)
  have g: "Get (Header ?r) ''Origin'' \<noteq> ''''"
    by (simp add: preflight_request_reads)
  obtain h1 where h1:
    "\<forall>next. ServeHTTP fragment_MatchString (open_policy\<lparr>AllowedHeaders := [''*'']\<rparr>)
       blank_writer ?r next = next_ServeHTTP next (blank_writer\<lparr>wHeader := h1\<rparr>) ?r"
    "h1 ''Access-Control-Allow-Headers'' = Some [''X-Custom'']"
    using allow_headers_on_preflight [OF g a p o, of "[''*'']" blank_writer]
    by (auto simp: preflight_request_reads)
  obtain h2 where h2:
    "\<forall>next. ServeHTTP fragment_MatchString
       (open_policy\<lparr>AllowedHeaders := [''X-Requested-With'', ''Content-Type'']\<rparr>)
       blank_writer ?r next = next_ServeHTTP next (blank_writer\<lparr>wHeader := h2\<rparr>) ?r"
    "h2 ''Access-Control-Allow-Headers'' = Some [''X-Requested-With, Content-Type'']"
    using allow_headers_on_preflight [OF g a p o,
        of "[''X-Requested-With'', ''Content-Type'']" blank_writer]
    by (auto simp: preflight_request_reads)
  obtain h3 where h3:
    "\<forall>next. ServeHTTP fragment_MatchString (open_policy\<lparr>AllowedHeaders := []\<rparr>)
       blank_writer ?r next = next_ServeHTTP next (blank_writer\<lparr>wHeader := h3\<rparr>) ?r"
    "h3 ''Access-Control-Allow-Headers'' = None"
    using allow_headers_on_preflight [OF g a p o, of "[]" blank_writer]
    by (auto simp: blank_writer_def)
  show ?thesis
    using h1 h2 h3 g a o p
    by (simp add: next_ServeHTTP_pass_through)
qed

text \<open>
  What the decorator's \<^verbatim>\<open>WriteHeader\<close> would do if it were called: with
  \<^verbatim>\<open>OverrideExistingCors\<close> true no \<^verbatim>\<open>Access-Control-\<close> header is left.
\<close>

lemma WriteHeader_strips:
  "OverrideExistingCors cors \<Longrightarrow> HasPrefix header ''Access-Control-'' \<Longrightarrow>
   wHeader (WriteHeader cors rw statusCode) header = None"
  by (simp add: WriteHeader_def)

text \<open>
  Claim C10. \<^verbatim>\<open>ServeHTTP\<close> removes no response header. For every request, the headers
  that reach the next handler agree with the headers the response had, except that some
  of the seven headers the middleware writes may have been set to a single value; so a
  header that was there is still there, and a header the middleware does not set has the
  value it had. The stripping pass of the decorator is not part of the request path.
\<close>

theorem ServeHTTP_removes_no_header:
  "\<exists>h. (\<forall>next. ServeHTTP re c w r next = next_ServeHTTP next (w\<lparr>wHeader := h\<rparr>) r) \<and>
       (\<forall>k. h k = wHeader w k \<or>
            (k \<in> {''Access-Control-Allow-Origin'', ''Vary'', ''Access-Control-Allow-Methods'',
                   ''Access-Control-Allow-Headers'', ''Access-Control-Max-Age'',
                   ''Access-Control-Expose-Headers'', ''Access-Control-Allow-Credentials''} \<and>
             (\<exists>v. h k = Some [v])))"
proof (intro exI conjI allI)
  fix nxt
  show "ServeHTTP re c w r nxt =
          next_ServeHTTP nxt (w\<lparr>wHeader := wHeader (fst (ServeHTTP re c w r pass_through))\<rparr>) r"
    by (rule ServeHTTP_hands_on)
next
  fix k
  show "wHeader (fst (ServeHTTP re c w r pass_through)) k = wHeader w k \<or>
          (k \<in> {''Access-Control-Allow-Origin'', ''Vary'', ''Access-Control-Allow-Methods'',
                 ''Access-Control-Allow-Headers'', ''Access-Control-Max-Age'',
                 ''Access-Control-Expose-Headers'', ''Access-Control-Allow-Credentials''} \<and>
           (\<exists>v. wHeader (fst (ServeHTTP re c w r pass_through)) k = Some [v]))"
  proof (cases "OverrideExistingCors c")
    case False
    then show ?thesis
      by (simp add: ServeHTTP_def Let_def setHeader_off next_ServeHTTP_pass_through)
  next
    case True
    then show ?thesis
      by (simp add: ServeHTTP_def Let_def setHeader_on next_ServeHTTP_pass_through)
  qed
qed

theorem ServeHTTP_removes_no_header_witness:
  "wHeader used_writer ''Access-Control-Allow-Private-Network'' = Some [''true''] \<and>
   wHeader (fst (ServeHTTP fragment_MatchString open_policy used_writer
                   (get_request ''http://example.com'') pass_through))
     ''Access-Control-Allow-Private-Network'' = Some [''true''] \<and>
   wHeader (WriteHeader open_policy used_writer 200)
     ''Access-Control-Allow-Private-Network'' = None"
proof -
  let ?r = "get_request ''http://example.com''"
  obtain h where
    "\<forall>next. ServeHTTP fragment_MatchString open_policy used_writer ?r next =
       next_ServeHTTP next (used_writer\<lparr>wHeader := h\<rparr>) ?r"
    "h ''Access-Control-Allow-Private-Network'' =
       wHeader used_writer ''Access-Control-Allow-Private-Network'' \<or>
     (''Access-Control-Allow-Private-Network'' \<in>
        {''Access-Control-Allow-Origin'', ''Vary'', ''Access-Control-Allow-Methods'',
         ''Access-Control-Allow-Headers'', ''Access-Control-Max-Age'',
         ''Access-Control-Expose-Headers'', ''Access-Control-Allow-Credentials''} \<and>
      (\<exists>v. h ''Access-Control-Allow-Private-Network'' = Some [v]))"
    using ServeHTTP_removes_no_header [of fragment_MatchString open_policy used_writer ?r]
    by blast
  moreover have "wHeader used_writer ''Access-Control-Allow-Private-Network'' = Some [''true'']"
    by (simp add: used_writer_def)
  moreover have "wHeader (WriteHeader open_policy used_writer 200)
     ''Access-Control-Allow-Private-Network'' = None"
    by (simp add: WriteHeader_def open_policy_def HasPrefix_def)
  ultimately show ?thesis
    by (simp add: next_ServeHTTP_pass_through)
qed

end
